theory Spec2Isabelle
  imports Complex_Main "HOL-Library.Multiset"
begin

section \<open>Q-Drift: the simulation and metrics engine of \<^verbatim>\<open>src/main.py\<close>\<close>

text \<open>
  Conventions of the embedding.
  \<^item> A Python \<^verbatim>\<open>float\<close> is a \<^typ>\<open>real\<close>: arithmetic is exact, there is no rounding and
    no NaN or infinity. \<^verbatim>\<open>math.log2\<close> is \<^term>\<open>log 2\<close>. Where a property depends on the
    value a floating-point operation returns, the operation is a parameter instead
    (\<open>float_arith\<close> below).
  \<^item> A Python \<^verbatim>\<open>int\<close> is an \<^typ>\<open>int\<close>; lengths and tallies are \<^typ>\<open>nat\<close>.
  \<^item> A Python \<^verbatim>\<open>str\<close> is a \<^typ>\<open>string\<close>; a character outside ASCII is written as the
    bytes of its UTF-8 encoding.
  \<^item> The module \<^verbatim>\<open>random\<close> and the file system are not part of the program. They are
    parameters: a type \<open>'g\<close> of generator states, the state \<^verbatim>\<open>random.seed(s)\<close> installs,
    the step \<^verbatim>\<open>random.random()\<close> makes, and whether and where the write to a path fails.
\<close>

subsection \<open>The environment: the random source and the file system\<close>

text \<open>
  \<open>rng_seed s\<close> is the generator state after \<^verbatim>\<open>random.seed(s)\<close>; \<open>rng_random g\<close> is the
  draw \<^verbatim>\<open>random.random()\<close> returns in state \<open>g\<close>, with the state it leaves.
  \<open>write_error path\<close> is \<open>None\<close> when \<^verbatim>\<open>open(path, "w")\<close> and \<^verbatim>\<open>json.dump\<close> succeed, and
  \<open>Some e\<close> when they raise an \<^verbatim>\<open>IOError\<close> whose text is \<open>e\<close>. \<open>write_truncates path\<close> tells
  where a failing write fails: it is true when \<^verbatim>\<open>open\<close> succeeds, which empties the file,
  and the error comes after it; it is false when \<^verbatim>\<open>open\<close> itself fails.
\<close>

record 'g environment =
  rng_seed :: "int \<Rightarrow> 'g"
  rng_random :: "'g \<Rightarrow> real \<times> 'g"
  write_error :: "string \<Rightarrow> string option"
  write_truncates :: "string \<Rightarrow> bool"

subsection \<open>\<^verbatim>\<open>quantum_gate_simulation\<close> (lines 14-19)\<close>

definition base_probability :: real where
  "base_probability = 9 / 10"

text \<open>
  Lines 16-19 in exact arithmetic. Line 17: the product, before line 18 clamps it.
\<close>

definition unclamped_probability :: "real \<Rightarrow> real" where
  "unclamped_probability noise_level = base_probability * (1 - noise_level)"

text \<open>Lines 17-18: the value of \<^verbatim>\<open>shifted_probability\<close> at the comparison of line 19.\<close>

definition shifted_probability :: "real \<Rightarrow> real" where
  "shifted_probability noise_level = max 0 (min 1 (unclamped_probability noise_level))"

definition quantum_gate_simulation :: "'g environment \<Rightarrow> real \<Rightarrow> 'g \<Rightarrow> int \<times> 'g" where
  "quantum_gate_simulation R noise_level g =
     (let (r, g') = rng_random R g
      in (if r < shifted_probability noise_level then 1 else 0, g'))"

text \<open>
  The generator with line 18 deleted, for the comparison with the program: it compares
  the draw with the product itself.
\<close>

definition quantum_gate_simulation_without_clamp ::
  "'g environment \<Rightarrow> real \<Rightarrow> 'g \<Rightarrow> int \<times> 'g" where
  "quantum_gate_simulation_without_clamp R noise_level g =
     (let (r, g') = rng_random R g
      in (if r < unclamped_probability noise_level then 1 else 0, g'))"

text \<open>
  The generator with the arithmetic of lines 16-17 as a parameter: \<open>fl_base\<close> is the value
  of the literal \<^verbatim>\<open>0.9\<close>, \<open>fl_sub\<close> and \<open>fl_mul\<close> are the subtraction and the multiplication of
  floats, whose results are rounded. \<^verbatim>\<open>max\<close>, \<^verbatim>\<open>min\<close> and \<^verbatim>\<open><\<close> do not round.
\<close>

record float_arith =
  fl_base :: real
  fl_sub :: "real \<Rightarrow> real \<Rightarrow> real"
  fl_mul :: "real \<Rightarrow> real \<Rightarrow> real"

text \<open>Lines 16-18: the value of \<^verbatim>\<open>shifted_probability\<close> at the comparison of line 19.\<close>

definition computed_probability :: "float_arith \<Rightarrow> real \<Rightarrow> real" where
  "computed_probability F noise_level =
     max 0 (min 1 (fl_mul F (fl_base F) (fl_sub F 1 noise_level)))"

definition quantum_gate_simulation_fl ::
  "float_arith \<Rightarrow> 'g environment \<Rightarrow> real \<Rightarrow> 'g \<Rightarrow> int \<times> 'g" where
  "quantum_gate_simulation_fl F R noise_level g =
     (let (r, g') = rng_random R g
      in (if r < computed_probability F noise_level then 1 else 0, g'))"

text \<open>
  The arithmetic without rounding. With it the generator above is
  \<open>quantum_gate_simulation\<close> (lemma \<open>quantum_gate_simulation_fl_exact\<close>).
\<close>

definition exact_arith :: float_arith where
  "exact_arith = \<lparr>fl_base = 9 / 10, fl_sub = (-), fl_mul = (*)\<rparr>"

subsection \<open>\<^verbatim>\<open>collections.Counter\<close> on a list\<close>

text \<open>
  A \<^verbatim>\<open>Counter\<close> is a dictionary, and a dictionary keeps its keys in the order of their
  first insertion: an association list, a new key added at the end.
\<close>

fun counter_add :: "'a \<Rightarrow> ('a \<times> nat) list \<Rightarrow> ('a \<times> nat) list" where
  "counter_add x [] = [(x, 1)]"
| "counter_add x ((k, c) # kcs) =
     (if k = x then (k, c + 1) # kcs else (k, c) # counter_add x kcs)"

definition Counter :: "'a list \<Rightarrow> ('a \<times> nat) list" where
  "Counter xs = fold counter_add xs []"

text \<open>\<^verbatim>\<open>counts.get(k, 0)\<close>.\<close>

definition counter_get :: "('a \<times> nat) list \<Rightarrow> 'a \<Rightarrow> nat" where
  "counter_get counts k = (case map_of counts k of None \<Rightarrow> 0 | Some c \<Rightarrow> c)"

subsection \<open>\<^verbatim>\<open>calculate_entropy\<close> (lines 22-32) and \<^verbatim>\<open>calculate_collapse_bias\<close> (lines 35-41)\<close>

text \<open>
  Lines 30-31, the body of the loop over \<^verbatim>\<open>counts.values()\<close>; \<open>n\<close> is the
  \<^verbatim>\<open>total\<close> of line 24 and \<open>c\<close> the \<^verbatim>\<open>count\<close> of line 29.
\<close>

definition entropy_step :: "nat \<Rightarrow> nat \<Rightarrow> real \<Rightarrow> real" where
  "entropy_step n c entropy =
     (let p = real c / real n in entropy - p * log 2 p)"

definition calculate_entropy :: "int list \<Rightarrow> real" where
  "calculate_entropy states =
     (let total = length states
      in if total = 0 then 0
         else fold (entropy_step total) (map snd (Counter states)) 0)"

definition calculate_collapse_bias :: "int list \<Rightarrow> real" where
  "calculate_collapse_bias states =
     (let total = length states
      in if total = 0 then 0
         else (let ones_ratio = real (count_list states 1) / real total
               in \<bar>ones_ratio - 1 / 2\<bar>))"

subsection \<open>Strings: \<^verbatim>\<open>str\<close> of an integer, and the symbols of the messages\<close>

definition digit_char :: "nat \<Rightarrow> char" where
  "digit_char d = char_of (48 + d)"

fun str_nat :: "nat \<Rightarrow> string" where
  "str_nat n = (if n < 10 then [digit_char n] else str_nat (n div 10) @ [digit_char (n mod 10)])"

definition str_int :: "int \<Rightarrow> string" where
  "str_int i = (if i < 0 then CHR ''-'' # str_nat (nat (- i)) else str_nat (nat i))"

text \<open>U+2699 U+FE0F (line 75), U+274C (lines 78, 82, 154), U+1F6A8 (line 121),
  U+26A0 U+FE0F (line 126), U+2705 (line 130) and U+1F4BE (line 152), in UTF-8.\<close>

definition gear :: string where
  "gear = [CHR 0xE2, CHR 0x9A, CHR 0x99, CHR 0xEF, CHR 0xB8, CHR 0x8F]"

definition cross_mark :: string where
  "cross_mark = [CHR 0xE2, CHR 0x9D, CHR 0x8C]"

definition rotating_light :: string where
  "rotating_light = [CHR 0xF0, CHR 0x9F, CHR 0x9A, CHR 0xA8]"

definition warning_sign :: string where
  "warning_sign = [CHR 0xE2, CHR 0x9A, CHR 0xA0, CHR 0xEF, CHR 0xB8, CHR 0x8F]"

definition check_mark :: string where
  "check_mark = [CHR 0xE2, CHR 0x9C, CHR 0x85]"

definition floppy_disk :: string where
  "floppy_disk = [CHR 0xF0, CHR 0x9F, CHR 0x92, CHR 0xBE]"

subsection \<open>The options of \<^verbatim>\<open>analyze\<close> (lines 62-69), the console and the files\<close>

record options =
  simulations :: int
  noise :: real
  seed :: "int option"
  output_opt :: "string option"
  graph_opt :: bool
  ci_mode :: bool

text \<open>
  What the program sends to the console, in order. \<open>Print s\<close> is \<^verbatim>\<open>console.print(s)\<close> of a
  markup string and \<open>Status s\<close> the spinner of line 86. The panel and the table carry the
  numbers of their cells, before \<^verbatim>\<open>round\<close> and the decimal rendering of a float:
  \<open>PrintPanel\<close> the length of the first bar, \<^verbatim>\<open>count_0\<close>, \<^verbatim>\<open>ratio_0 * 100\<close>, then the same for
  the second bar; \<open>PrintTable\<close> the simulations, \<^verbatim>\<open>noise * 100\<close>, the bias and the entropy.
\<close>

datatype event =
    Print string
  | Status string
  | PrintPanel nat nat real nat nat real
  | PrintTable int real real real

text \<open>The dictionary \<^verbatim>\<open>data\<close> of lines 134-147, which \<^verbatim>\<open>json.dump\<close> writes.\<close>

record report =
  report_simulations :: int
  report_noise_level :: real
  report_seed :: "int option"
  report_entropy :: real
  report_bias :: real
  report_0_fail :: nat
  report_1_pass :: nat
  report_status :: string

text \<open>
  What a file holds after line 149 opened it: the report, when \<^verbatim>\<open>json.dump\<close> and the
  closing of the file succeeded, or else what was written before the error, which is
  empty or a part of the text of the report.
\<close>

datatype file_content = Report report | Partial

text \<open>
  The state the program acts on: the process-wide generator, the console and the files.
\<close>

record 'g world =
  rng :: 'g
  console :: "event list"
  files :: "string \<rightharpoonup> file_content"

definition emit :: "event list \<Rightarrow> 'g world \<Rightarrow> 'g world" where
  "emit es w = w\<lparr>console := console w @ es\<rparr>"

subsection \<open>\<^verbatim>\<open>render_distribution_chart\<close> (lines 44-59)\<close>

definition render_distribution_chart :: "nat \<Rightarrow> nat \<Rightarrow> event list" where
  "render_distribution_chart count_0 count_1 =
     (let total = count_0 + count_1
      in if total = 0 then []
         else (let bar_width = 40;
                   ratio_0 = real count_0 / real total;
                   ratio_1 = real count_1 / real total;
                   bar_0 = nat \<lfloor>ratio_0 * bar_width\<rfloor>;
                   bar_1 = nat \<lfloor>ratio_1 * bar_width\<rfloor>
               in [PrintPanel bar_0 count_0 (ratio_0 * 100) bar_1 count_1 (ratio_1 * 100)]))"

subsection \<open>\<^verbatim>\<open>analyze\<close> (lines 62-158)\<close>

text \<open>Lines 72-75: the seed is installed, and announced, before anything is checked.\<close>

definition apply_seed :: "'g environment \<Rightarrow> options \<Rightarrow> 'g world \<Rightarrow> 'g world" where
  "apply_seed E opts w =
     (case seed opts of
        None \<Rightarrow> w
      | Some s \<Rightarrow>
          (let w' = w\<lparr>rng := rng_seed E s\<rparr>
           in if \<not> ci_mode opts
              then emit [Print (''[dim]'' @ gear @ '' Deterministic mode enabled. Seed: ''
                                 @ str_int s @ ''[/dim]'')] w'
              else w'))"

text \<open>Lines 77-83: the message printed before \<^verbatim>\<open>typer.Exit(code=1)\<close>, if a check fails.\<close>

definition validate :: "options \<Rightarrow> string option" where
  "validate opts =
     (if simulations opts \<le> 0
      then Some (''[bold red]'' @ cross_mark @ '' Simulations must be > 0[/bold red]'')
      else if \<not> (0 \<le> noise opts \<and> noise opts \<le> 1)
      then Some (''[bold red]'' @ cross_mark @ '' Noise must be between 0.0 and 1.0[/bold red]'')
      else None)"

text \<open>Lines 87 and 89: the list comprehension over \<^verbatim>\<open>range(simulations)\<close>.\<close>

fun simulate :: "'g environment \<Rightarrow> real \<Rightarrow> nat \<Rightarrow> 'g \<Rightarrow> int list \<times> 'g" where
  "simulate E noise_level 0 g = ([], g)"
| "simulate E noise_level (Suc n) g =
     (let (b, g1) = quantum_gate_simulation E noise_level g;
          (bs, g2) = simulate E noise_level n g1
      in (b # bs, g2))"

text \<open>
  Lines 115-130: \<^verbatim>\<open>status_msg\<close>, the line printed outside CI mode, and \<^verbatim>\<open>exit_code\<close>.
\<close>

definition classify :: "real \<Rightarrow> string \<times> string \<times> int" where
  "classify entropy =
     (if entropy > 8 / 10
      then (let status_msg = ''CRITICAL: High structural fragility detected.''
            in (status_msg,
                ''[bold red]'' @ rotating_light @ '' '' @ status_msg @ ''[/bold red]'', 1))
      else if entropy > 4 / 10
      then (let status_msg = ''WARNING: Moderate drift detected.''
            in (status_msg,
                ''[bold yellow]'' @ warning_sign @ '' '' @ status_msg @ ''[/bold yellow]'', 0))
      else (let status_msg = ''STABLE: System appears robust.''
            in (status_msg,
                ''[bold green]'' @ check_mark @ '' '' @ status_msg @ ''[/bold green]'', 0)))"

text \<open>The local variables of a run that passed the checks.\<close>

record run =
  run_results :: "int list"
  run_entropy :: real
  run_bias :: real
  run_state_0_count :: nat
  run_state_1_count :: nat
  run_status_msg :: string
  run_exit_code :: int

text \<open>Lines 91-96 and the assignments of lines 115-130.\<close>

definition evaluate :: "int list \<Rightarrow> run" where
  "evaluate results =
     (let entropy = calculate_entropy results;
          bias = calculate_collapse_bias results;
          counts = Counter results;
          state_0_count = counter_get counts 0;
          state_1_count = counter_get counts 1;
          (status_msg, markup, exit_code) = classify entropy
      in \<lparr>run_results = results, run_entropy = entropy, run_bias = bias,
          run_state_0_count = state_0_count, run_state_1_count = state_1_count,
          run_status_msg = status_msg, run_exit_code = exit_code\<rparr>)"

text \<open>Lines 98-112 and the prints of lines 120-130: the chart, the table, the status.\<close>

definition present :: "options \<Rightarrow> run \<Rightarrow> event list" where
  "present opts r =
     (if ci_mode opts then []
      else (if graph_opt opts
            then [Print []] @ render_distribution_chart (run_state_0_count r) (run_state_1_count r)
                 @ [Print []]
            else [])
           @ [PrintTable (simulations opts) (noise opts * 100) (run_bias r) (run_entropy r)]
           @ [Print (fst (snd (classify (run_entropy r))))])"

text \<open>Lines 134-147.\<close>

definition report_of :: "options \<Rightarrow> run \<Rightarrow> report" where
  "report_of opts r =
     \<lparr>report_simulations = simulations opts, report_noise_level = noise opts,
      report_seed = seed opts, report_entropy = run_entropy r, report_bias = run_bias r,
      report_0_fail = run_state_0_count r, report_1_pass = run_state_1_count r,
      report_status = run_status_msg r\<rparr>"

text \<open>
  Lines 133-158. \<^verbatim>\<open>if output:\<close> is false for no path and for the empty path. The first
  component is the exit status of the process: 1 after an \<^verbatim>\<open>IOError\<close>, otherwise
  \<^verbatim>\<open>exit_code\<close>, which is 0 when the function returns. A write that fails after
  \<^verbatim>\<open>open(output, "w")\<close> succeeded leaves a file that does not hold the report; one that
  fails at \<^verbatim>\<open>open\<close> leaves the files as they were.
\<close>

definition export :: "'g environment \<Rightarrow> options \<Rightarrow> run \<Rightarrow> 'g world \<Rightarrow> int \<times> 'g world" where
  "export E opts r w =
     (case output_opt opts of
        None \<Rightarrow> (run_exit_code r, w)
      | Some path \<Rightarrow>
          if path = [] then (run_exit_code r, w)
          else (case write_error E path of
                  Some e \<Rightarrow>
                    (let w' = (if write_truncates E path
                               then w\<lparr>files := (files w)(path \<mapsto> Partial)\<rparr>
                               else w)
                     in (1, emit [Print (''[bold red]'' @ cross_mark @ '' Error saving JSON: ''
                                          @ e @ ''[/bold red]'')] w'))
                | None \<Rightarrow>
                    (let w' = w\<lparr>files := (files w)(path \<mapsto> Report (report_of opts r))\<rparr>;
                         w'' = (if \<not> ci_mode opts
                                then emit [Print (''[dim]'' @ floppy_disk @ '' Report saved to: ''
                                                   @ path @ ''[/dim]'')] w'
                                else w')
                     in (run_exit_code r, w''))))"

text \<open>
  The command: the exit status of the process, the local variables of the run (\<open>None\<close>
  when the run stopped at a check) and the state it leaves.
\<close>

definition analyze :: "'g environment \<Rightarrow> options \<Rightarrow> 'g world \<Rightarrow> int \<times> run option \<times> 'g world" where
  "analyze E opts w0 =
     (let w1 = apply_seed E opts w0
      in case validate opts of
           Some msg \<Rightarrow> (1, None, emit [Print msg] w1)
         | None \<Rightarrow>
             (let w2 = (if \<not> ci_mode opts
                        then emit [Status ''[bold green]Simulating probabilistic state collapse...''] w1
                        else w1);
                  (results, g) = simulate E (noise opts) (nat (simulations opts)) (rng w2);
                  r = evaluate results;
                  w3 = emit (present opts r) (w2\<lparr>rng := g\<rparr>);
                  (code, w4) = export E opts r w3
              in (code, Some r, w4)))"

subsection \<open>A small environment to run the program in\<close>

text \<open>
  A generator whose state is a counter: seeding with \<open>s\<close> sets it to \<open>\<bar>s\<bar>\<close>, and the draws
  alternate between 1/4 and 19/20, both in [0, 1). Every path can be written except
  one, which can be opened and whose write fails.
\<close>

definition test_env :: "nat environment" where
  "test_env =
     \<lparr>rng_seed = (\<lambda>s. nat \<bar>s\<bar>),
      rng_random = (\<lambda>g. (if even g then 1 / 4 else 19 / 20, Suc g)),
      write_error = (\<lambda>path. if path = ''/dev/full''
                             then Some ''[Errno 28] No space left on device'' else None),
      write_truncates = (\<lambda>path. path = ''/dev/full'')\<rparr>"

definition test_world :: "nat \<Rightarrow> nat world" where
  "test_world g = \<lparr>rng = g, console = [], files = Map.empty\<rparr>"

definition test_options :: "int \<Rightarrow> real \<Rightarrow> int option \<Rightarrow> string option \<Rightarrow> options" where
  "test_options n x s path =
     \<lparr>simulations = n, noise = x, seed = s, output_opt = path, graph_opt = True, ci_mode = True\<rparr>"

subsection \<open>The term of the entropy\<close>

definition plogp :: "real \<Rightarrow> real" where
  "plogp p = p * log 2 p"

section \<open>Properties\<close>

subsection \<open>The counter holds the tallies of the list\<close>

lemma counter_get_Nil: "counter_get [] k = 0"
  by (simp add: counter_get_def)

lemma counter_get_Cons:
  "counter_get ((k', c) # kcs) k = (if k = k' then c else counter_get kcs k)"
  by (simp add: counter_get_def)

lemma counter_get_add:
  "counter_get (counter_add x kcs) k = counter_get kcs k + (if k = x then 1 else 0)"
  by (induction x kcs rule: counter_add.induct) (auto simp: counter_get_Nil counter_get_Cons)

lemma keys_counter_add: "fst ` set (counter_add x kcs) = insert x (fst ` set kcs)"
  by (induction x kcs rule: counter_add.induct) auto

lemma distinct_counter_add:
  "distinct (map fst kcs) \<Longrightarrow> distinct (map fst (counter_add x kcs))"
proof (induction x kcs rule: counter_add.induct)
  case (1 x)
  then show ?case by simp
next
  case (2 x k c kcs)
  then show ?case
    using keys_counter_add [of x kcs] by (auto simp del: keys_counter_add)
qed

lemma fold_counter_add:
  "counter_get (fold counter_add xs acc) k = counter_get acc k + count_list xs k"
  by (induction xs arbitrary: acc) (auto simp: counter_get_add)

lemma keys_fold_counter_add:
  "fst ` set (fold counter_add xs acc) = fst ` set acc \<union> set xs"
  by (induction xs arbitrary: acc) (auto simp: keys_counter_add)

lemma distinct_fold_counter_add:
  "distinct (map fst acc) \<Longrightarrow> distinct (map fst (fold counter_add xs acc))"
  by (induction xs arbitrary: acc) (auto simp: distinct_counter_add)

lemma counter_get_Counter: "counter_get (Counter xs) k = count_list xs k"
  by (simp add: Counter_def fold_counter_add counter_get_Nil)

lemma keys_Counter: "fst ` set (Counter xs) = set xs"
  by (simp add: Counter_def keys_fold_counter_add)

lemma distinct_Counter: "distinct (map fst (Counter xs))"
  by (simp add: Counter_def distinct_fold_counter_add)

lemma sum_list_values:
  "distinct (map fst kcs) \<Longrightarrow>
   sum_list (map f (map snd kcs)) = (\<Sum>k\<in>fst ` set kcs. f (counter_get kcs k))"
proof (induction kcs)
  case Nil
  then show ?case by simp
next
  case (Cons kc kcs)
  obtain k c where kc: "kc = (k, c)" by (cases kc)
  from Cons.prems kc have notin: "k \<notin> fst ` set kcs" and d: "distinct (map fst kcs)"
    by auto
  have "(\<Sum>j\<in>fst ` set kcs. f (counter_get ((k, c) # kcs) j))
        = (\<Sum>j\<in>fst ` set kcs. f (counter_get kcs j))"
    using notin by (intro sum.cong) (auto simp: counter_get_Cons)
  then show ?case
    using notin Cons.IH [OF d] by (simp add: kc counter_get_Cons)
qed

lemma fold_entropy_step:
  "fold (entropy_step n) cs e = e - sum_list (map (\<lambda>c. plogp (real c / real n)) cs)"
  by (induction cs arbitrary: e) (auto simp: entropy_step_def plogp_def Let_def)

lemma calculate_entropy_sum:
  "states \<noteq> [] \<Longrightarrow>
   calculate_entropy states
     = - (\<Sum>k\<in>set states. plogp (real (count_list states k) / real (length states)))"
  using sum_list_values [OF distinct_Counter, of "\<lambda>c. plogp (real c / real (length states))" states]
  by (simp add: calculate_entropy_def fold_entropy_step keys_Counter counter_get_Counter)

subsection \<open>The entropy of two values\<close>

lemma plogp_0: "plogp 0 = 0"
  by (simp add: plogp_def)

lemma plogp_1: "plogp 1 = 0"
  by (simp add: plogp_def)

lemma plogp_half: "plogp (1 / 2) = - (1 / 2)"
  by (simp add: plogp_def log_divide)

lemma plogp_nonpos: "0 \<le> p \<Longrightarrow> p \<le> 1 \<Longrightarrow> plogp p \<le> 0"
proof (cases "p = 0")
  case True
  then show ?thesis by (simp add: plogp_0)
next
  case False
  assume "0 \<le> p" "p \<le> 1"
  with False have "0 < p" by simp
  with \<open>p \<le> 1\<close> have "log 2 p \<le> 0" by simp
  with \<open>0 < p\<close> show ?thesis
    unfolding plogp_def by (simp add: mult_le_0_iff)
qed

lemma plogp_lower: "0 < (p::real) \<Longrightarrow> p - 1 / 2 - p * ln 2 \<le> p * ln p"
proof -
  assume p: "0 < (p::real)"
  then have "ln (1 / (2 * p)) \<le> 1 / (2 * p) - 1"
    by (intro ln_le_minus_one) simp
  then have "p * ln (1 / (2 * p)) \<le> p * (1 / (2 * p) - 1)"
    using p by (intro mult_left_mono) simp_all
  also have "p * (1 / (2 * p) - 1) = 1 / 2 - p"
    using p by (simp add: field_simps)
  finally have a: "p * ln (1 / (2 * p)) \<le> 1 / 2 - p" .
  have "ln (1 / (2 * p)) = - ln 2 - ln p"
    using p by (simp add: ln_div ln_mult)
  then have "p * ln (1 / (2 * p)) = p * (- ln 2 - ln p)"
    by (rule arg_cong)
  then have b: "p * ln (1 / (2 * p)) = - (p * ln 2) - p * ln p"
    by (simp add: right_diff_distrib)
  from a b show ?thesis by linarith
qed

lemma binary_entropy_le_1:
  assumes "0 \<le> p" "0 \<le> q" "p + q = 1"
  shows "- (plogp p + plogp q) \<le> 1"
proof (cases "p = 0 \<or> q = 0")
  case True
  then show ?thesis using assms by (auto simp: plogp_0 plogp_1)
next
  case False
  with assms have p: "0 < p" and q: "0 < q" by auto
  have "p - 1 / 2 - p * ln 2 + (q - 1 / 2 - q * ln 2) \<le> p * ln p + q * ln q"
    using plogp_lower [OF p] plogp_lower [OF q] by linarith
  moreover have "p - 1 / 2 - p * ln 2 + (q - 1 / 2 - q * ln 2)
                 = (p + q) - 1 - (p + q) * ln 2"
    by (simp only: distrib_right)
  ultimately have le: "- (p * ln p + q * ln q) \<le> ln 2"
    using assms(3) by simp
  have ln2: "0 < ln (2::real)" by simp
  have "- (p * ln p + q * ln q) / ln 2 \<le> 1"
    using le ln2 by (simp only: divide_le_eq_1_pos)
  moreover have "- (plogp p + plogp q) = - (p * ln p + q * ln q) / ln 2"
    by (simp add: plogp_def log_def diff_divide_distrib)
  ultimately show ?thesis by (simp only:)
qed

lemma binary_entropy_ge_0:
  assumes "0 \<le> p" "0 \<le> q" "p + q = 1"
  shows "0 \<le> - (plogp p + plogp q)"
  using plogp_nonpos [of p] plogp_nonpos [of q] assms by simp

lemma binary_counts:
  "set states \<subseteq> {0, 1} \<Longrightarrow> count_list states 0 + count_list states (1::int) = length states"
  by (induction states) auto

lemma binary_entropy_sum:
  assumes "states \<noteq> []" "set states \<subseteq> {0, 1}"
  shows "calculate_entropy states
     = - (plogp (real (count_list states 0) / real (length states))
          + plogp (real (count_list states 1) / real (length states)))"
proof -
  let ?g = "\<lambda>k. plogp (real (count_list states k) / real (length states))"
  have "sum ?g (set states) = sum ?g {0, 1}"
  proof (rule sum.mono_neutral_left)
    show "\<forall>i\<in>{0, 1} - set states. ?g i = 0"
      by (auto simp: plogp_0 count_list_0_iff)
  qed (use assms in auto)
  then show ?thesis
    using assms(1) by (simp add: calculate_entropy_sum)
qed

subsection \<open>The outcome generator\<close>

lemma unclamped_probability_range:
  "0 \<le> x \<Longrightarrow> x \<le> 1 \<Longrightarrow> 0 \<le> unclamped_probability x \<and> unclamped_probability x \<le> 1"
  by (simp add: unclamped_probability_def base_probability_def)

lemma quantum_gate_simulation_fl_exact:
  "quantum_gate_simulation_fl exact_arith E noise_level g = quantum_gate_simulation E noise_level g"
  by (simp add: quantum_gate_simulation_fl_def quantum_gate_simulation_def
      computed_probability_def shifted_probability_def unclamped_probability_def
      base_probability_def exact_arith_def)



text \<open>
  Claim C9. For a noise in [0, 1] the product 0.9 * (1 - noise) is in [0, 1] already, the
  clamp of line 18 returns it unchanged, and the generator without line 18 returns what
  the generator returns.
\<close>

theorem clamp_redundant:
  "0 \<le> noise_level \<and> noise_level \<le> 1 \<Longrightarrow>
     0 \<le> unclamped_probability noise_level \<and> unclamped_probability noise_level \<le> 1
     \<and> shifted_probability noise_level = unclamped_probability noise_level
     \<and> quantum_gate_simulation E noise_level g
         = quantum_gate_simulation_without_clamp E noise_level g"
  using unclamped_probability_range [of noise_level]
  by (simp add: shifted_probability_def quantum_gate_simulation_def
      quantum_gate_simulation_without_clamp_def)

theorem clamp_redundant_witness:
  "(0::real) \<le> 3 / 10 \<and> (3 / 10 :: real) \<le> 1
   \<and> shifted_probability (3 / 10) = 63 / 100
   \<and> quantum_gate_simulation_without_clamp test_env (3 / 10) 1 = (0, 2)"
proof -
  have h: "(0::real) \<le> 3 / 10 \<and> (3 / 10 :: real) \<le> 1" by simp
  have a: "unclamped_probability (3 / 10) = 63 / 100"
    by (simp add: unclamped_probability_def base_probability_def)
  have b: "quantum_gate_simulation test_env (3 / 10) 1 = (0, 2)"
    by (simp add: quantum_gate_simulation_def shifted_probability_def a test_env_def)
  from clamp_redundant [OF h, of test_env 1] a b h show ?thesis by metis
qed

subsection \<open>The classification\<close>



subsection \<open>The metrics\<close>

lemma balanced_half:
  assumes "states \<noteq> []" "set states \<subseteq> {0, 1 :: int}" "count_list states 0 = count_list states 1"
  shows "real (count_list states 1) / real (length states) = 1 / 2"
proof -
  have n: "length states = 2 * count_list states 1"
    using binary_counts [OF assms(2)] assms(3) by simp
  from assms(1) have "0 < length states" by simp
  with n have pos: "0 < count_list states 1" by linarith
  have "real (length states) = 2 * real (count_list states 1)"
    using n by (metis of_nat_mult of_nat_numeral)
  with pos show ?thesis by simp
qed

lemma calculate_entropy_balanced:
  assumes "states \<noteq> []" "set states \<subseteq> {0, 1}" "count_list states 0 = count_list states 1"
  shows "calculate_entropy states = 1"
  by (simp add: binary_entropy_sum [OF assms(1,2)] assms(3) balanced_half [OF assms] plogp_half)

lemma calculate_collapse_bias_balanced:
  assumes "states \<noteq> []" "set states \<subseteq> {0, 1}" "count_list states 0 = count_list states 1"
  shows "calculate_collapse_bias states = 0"
  using assms(1) by (simp add: calculate_collapse_bias_def balanced_half [OF assms])

lemma count_list_all: "set xs \<subseteq> {a} \<Longrightarrow> count_list xs a = length xs"
  by (induction xs) auto

lemma count_list_none: "a \<notin> set xs \<Longrightarrow> count_list xs a = 0"
  by (induction xs) auto

lemma calculate_entropy_constant:
  assumes "states \<noteq> []" "set states \<subseteq> {a}"
  shows "calculate_entropy states = 0"
proof -
  from assms have s: "set states = {a}" by (cases states) auto
  show ?thesis
    using assms(1) by (simp add: calculate_entropy_sum s count_list_all [OF assms(2)] plogp_1)
qed

lemma calculate_collapse_bias_zeros:
  assumes "states \<noteq> []" "set states \<subseteq> {0}"
  shows "calculate_collapse_bias states = 1 / 2"
proof -
  from assms(2) have "1 \<notin> set states" by auto
  then have "count_list states 1 = 0" by (rule count_list_none)
  then show ?thesis using assms(1) by (simp add: calculate_collapse_bias_def)
qed

lemma calculate_collapse_bias_ones:
  assumes "states \<noteq> []" "set states \<subseteq> {1}"
  shows "calculate_collapse_bias states = 1 / 2"
  using assms(1) by (simp add: calculate_collapse_bias_def count_list_all [OF assms(2)])

text \<open>
  Claim C2. A non-empty sequence of 0s and 1s with as many 0s as 1s has entropy exactly 1
  and bias exactly 0; a non-empty sequence of 0s only, or of 1s only, has entropy exactly
  0 and bias exactly 0.5.
\<close>

theorem metrics_balanced_and_degenerate:
  "(balanced \<noteq> [] \<and> set balanced \<subseteq> {0, 1} \<and> count_list balanced 0 = count_list balanced 1
      \<longrightarrow> calculate_entropy balanced = 1 \<and> calculate_collapse_bias balanced = 0)
   \<and> (zeros \<noteq> [] \<and> set zeros \<subseteq> {0}
      \<longrightarrow> calculate_entropy zeros = 0 \<and> calculate_collapse_bias zeros = 1 / 2)
   \<and> (ones \<noteq> [] \<and> set ones \<subseteq> {1}
      \<longrightarrow> calculate_entropy ones = 0 \<and> calculate_collapse_bias ones = 1 / 2)"
  using calculate_entropy_balanced [of balanced] calculate_collapse_bias_balanced [of balanced]
    calculate_entropy_constant [of zeros 0] calculate_entropy_constant [of ones 1]
    calculate_collapse_bias_zeros [of zeros] calculate_collapse_bias_ones [of ones]
  by blast

theorem metrics_balanced_and_degenerate_witness:
  "calculate_entropy [0, 1, 0, 1] = 1 \<and> calculate_collapse_bias [0, 1, 0, 1] = 0
   \<and> calculate_entropy [0, 0, 0] = 0 \<and> calculate_collapse_bias [0, 0, 0] = 1 / 2
   \<and> calculate_entropy [1, 1] = 0 \<and> calculate_collapse_bias [1, 1] = 1 / 2"
  using metrics_balanced_and_degenerate [of "[0, 1, 0, 1]" "[0, 0, 0]" "[1, 1]"] by simp

lemma calculate_collapse_bias_range:
  "0 \<le> calculate_collapse_bias states \<and> calculate_collapse_bias states \<le> 1 / 2"
proof (cases "states = []")
  case True
  then show ?thesis by (simp add: calculate_collapse_bias_def)
next
  case False
  define ones_ratio where "ones_ratio = real (count_list states 1) / real (length states)"
  have "count_list states 1 \<le> length states" by (rule count_le_length)
  then have "ones_ratio \<le> 1"
    using False by (simp add: ones_ratio_def)
  moreover have "0 \<le> ones_ratio" by (simp add: ones_ratio_def)
  ultimately have "0 \<le> \<bar>ones_ratio - 1 / 2\<bar> \<and> \<bar>ones_ratio - 1 / 2\<bar> \<le> 1 / 2"
    by linarith
  moreover have "calculate_collapse_bias states = \<bar>ones_ratio - 1 / 2\<bar>"
    using False by (simp add: calculate_collapse_bias_def ones_ratio_def)
  ultimately show ?thesis by (simp only:)
qed

lemma calculate_entropy_range:
  assumes "states \<noteq> []" "set states \<subseteq> {0, 1}"
  shows "0 \<le> calculate_entropy states \<and> calculate_entropy states \<le> 1"
proof -
  let ?p = "real (count_list states 0) / real (length states)"
  let ?q = "real (count_list states 1) / real (length states)"
  have "real (count_list states 0) + real (count_list states 1) = real (length states)"
    using binary_counts [OF assms(2)] by (metis of_nat_add)
  then have "?p + ?q = 1"
    using assms(1) by (simp add: add_divide_distrib [symmetric])
  moreover have "0 \<le> ?p" "0 \<le> ?q" by simp_all
  ultimately show ?thesis
    using binary_entropy_ge_0 [of ?p ?q] binary_entropy_le_1 [of ?p ?q]
    by (simp only: binary_entropy_sum [OF assms])
qed

lemma quantum_gate_simulation_binary:
  "fst (quantum_gate_simulation E x g) = 0 \<or> fst (quantum_gate_simulation E x g) = 1"
  by (simp add: quantum_gate_simulation_def split: prod.split)

lemma simulate_length: "length (fst (simulate E x n g)) = n"
  by (induction n arbitrary: g) (simp_all add: Let_def case_prod_beta)

lemma simulate_binary: "set (fst (simulate E x n g)) \<subseteq> {0, 1}"
proof (induction n arbitrary: g)
  case 0
  show ?case by simp
next
  case (Suc n)
  show ?case
    using quantum_gate_simulation_binary [of E x g]
      Suc.IH [of "snd (quantum_gate_simulation E x g)"]
    by (auto simp: Let_def case_prod_beta)
qed

lemma validate_None:
  "validate opts = None \<longleftrightarrow> 0 < simulations opts \<and> 0 \<le> noise opts \<and> noise opts \<le> 1"
  by (auto simp: validate_def)

lemma analyze_valid:
  "validate opts = None \<Longrightarrow>
   fst (snd (analyze E opts w))
     = Some (evaluate (fst (simulate E (noise opts) (nat (simulations opts))
                               (rng (apply_seed E opts w)))))"
  by (simp add: analyze_def Let_def emit_def split: prod.split)

lemma run_evaluate:
  "run_entropy (evaluate results) = calculate_entropy results"
  "run_bias (evaluate results) = calculate_collapse_bias results"
  "run_results (evaluate results) = results"
  by (simp_all add: evaluate_def Let_def split: prod.split)

text \<open>
  Claim C4. On a non-empty sequence of 0s and 1s the entropy is in [0, 1] and the bias in
  [0, 0.5]. Hence a run with a positive number of simulations and a noise in [0, 1]
  passes the checks, and the entropy and the bias it reports are in these ranges.
\<close>

theorem metrics_ranges:
  "(states \<noteq> [] \<and> set states \<subseteq> {0, 1}
      \<longrightarrow> 0 \<le> calculate_entropy states \<and> calculate_entropy states \<le> 1
          \<and> 0 \<le> calculate_collapse_bias states \<and> calculate_collapse_bias states \<le> 1 / 2)
   \<and> (0 < simulations opts \<and> 0 \<le> noise opts \<and> noise opts \<le> 1
      \<longrightarrow> (\<exists>r. fst (snd (analyze E opts w)) = Some r
               \<and> 0 \<le> run_entropy r \<and> run_entropy r \<le> 1
               \<and> 0 \<le> run_bias r \<and> run_bias r \<le> 1 / 2))"
proof (intro conjI impI)
  assume a: "states \<noteq> [] \<and> set states \<subseteq> {0, 1}"
  then show "0 \<le> calculate_entropy states" "calculate_entropy states \<le> 1"
    using calculate_entropy_range [of states] by simp_all
  show "0 \<le> calculate_collapse_bias states" "calculate_collapse_bias states \<le> 1 / 2"
    using calculate_collapse_bias_range [of states] by simp_all
next
  assume v: "0 < simulations opts \<and> 0 \<le> noise opts \<and> noise opts \<le> 1"
  let ?rs = "fst (simulate E (noise opts) (nat (simulations opts)) (rng (apply_seed E opts w)))"
  from v have "validate opts = None" by (simp add: validate_None)
  then have r: "fst (snd (analyze E opts w)) = Some (evaluate ?rs)" by (rule analyze_valid)
  have "length ?rs = nat (simulations opts)" by (rule simulate_length)
  with v have ne: "?rs \<noteq> []" by auto
  have bin: "set ?rs \<subseteq> {0, 1}" by (rule simulate_binary)
  show "\<exists>r. fst (snd (analyze E opts w)) = Some r
               \<and> 0 \<le> run_entropy r \<and> run_entropy r \<le> 1
               \<and> 0 \<le> run_bias r \<and> run_bias r \<le> 1 / 2"
    using r calculate_entropy_range [OF ne bin] calculate_collapse_bias_range [of ?rs]
    by (simp add: run_evaluate)
qed

theorem metrics_ranges_witness:
  "[0, 1, 1] \<noteq> [] \<and> set [0, 1, 1] \<subseteq> {0, 1 :: int}
   \<and> 0 \<le> calculate_entropy [0, 1, 1] \<and> calculate_entropy [0, 1, 1] \<le> 1
   \<and> calculate_collapse_bias [0, 1, 1] \<le> 1 / 2
   \<and> 0 < simulations (test_options 3 (3 / 10) (Some 42) None)
   \<and> 0 \<le> noise (test_options 3 (3 / 10) (Some 42) None)
   \<and> noise (test_options 3 (3 / 10) (Some 42) None) \<le> 1
   \<and> (\<exists>r. fst (snd (analyze test_env (test_options 3 (3 / 10) (Some 42) None) (test_world 7)))
              = Some r
            \<and> 0 \<le> run_entropy r \<and> run_entropy r \<le> 1
            \<and> 0 \<le> run_bias r \<and> run_bias r \<le> 1 / 2)"
  using metrics_ranges [of "[0, 1, 1]" "test_options 3 (3 / 10) (Some 42) None" test_env
      "test_world 7"]
  by (simp add: test_options_def)

text \<open>
  Claim C8. The entropy and the bias do not depend on the order of the outcomes: two
  sequences of 0s and 1s that are permutations of each other have the same entropy and
  the same bias.
\<close>

theorem metrics_order_independent:
  "mset s = mset s' \<Longrightarrow> set s \<subseteq> {0, 1} \<Longrightarrow>
     calculate_entropy s = calculate_entropy s'
     \<and> calculate_collapse_bias s = calculate_collapse_bias s'"
proof -
  assume m: "mset s = mset s'"
  then have len: "length s = length s'" by (rule mset_eq_length)
  from m have st: "set s = set s'" by (rule mset_eq_setD)
  have cnt: "count_list s k = count_list s' k" for k
    using m by (metis count_mset)
  show ?thesis
  proof (cases "s = []")
    case True
    with len show ?thesis by simp
  next
    case False
    with len have "s' \<noteq> []" by auto
    with False show ?thesis
      by (simp add: calculate_entropy_sum calculate_collapse_bias_def st cnt len)
  qed
qed

theorem metrics_order_independent_witness:
  "mset [0, 1, 1 :: int] = mset [1, 0, 1]
   \<and> set [0, 1, 1 :: int] \<subseteq> {0, 1}
   \<and> calculate_entropy [0, 1, 1] = calculate_entropy [1, 0, 1]
   \<and> calculate_collapse_bias [0, 1, 1] = calculate_collapse_bias [1, 0, 1]"
proof -
  have h: "mset [0, 1, 1 :: int] = mset [1, 0, 1]" by simp
  have b: "set [0, 1, 1 :: int] \<subseteq> {0, 1}" by simp
  from metrics_order_independent [OF h b] h b show ?thesis by simp
qed

subsection \<open>The checks of the options\<close>

lemma analyze_invalid:
  "validate opts = Some msg \<Longrightarrow>
   analyze E opts w = (1, None, emit [Print msg] (apply_seed E opts w))"
  by (simp add: analyze_def)

lemma rng_apply_seed:
  "rng (apply_seed E opts w) = (case seed opts of None \<Rightarrow> rng w | Some s \<Rightarrow> rng_seed E s)"
  by (simp add: apply_seed_def emit_def Let_def split: option.split)

lemma files_apply_seed: "files (apply_seed E opts w) = files w"
  by (simp add: apply_seed_def emit_def Let_def split: option.split)

lemma console_apply_seed:
  "console (apply_seed E opts w)
     = console w @ (case seed opts of
                      None \<Rightarrow> []
                    | Some s \<Rightarrow>
                        if ci_mode opts then []
                        else [Print (''[dim]'' @ gear @ '' Deterministic mode enabled. Seed: ''
                                      @ str_int s @ ''[/dim]'')])"
  by (simp add: apply_seed_def emit_def Let_def split: option.split)

lemma apply_seed_None: "seed opts = None \<Longrightarrow> apply_seed E opts w = w"
  by (simp add: apply_seed_def)

lemma emit_simps:
  "rng (emit es w) = rng w" "files (emit es w) = files w"
  "console (emit es w) = console w @ es"
  by (simp_all add: emit_def)

text \<open>
  Claim C5, as stated, at 10 simulations and a noise of 2: the run stops with status 1,
  and what it prints is not the message "noise out of range".
\<close>

theorem validation_messages_counterexample:
  "fst (analyze test_env (test_options 10 2 None None) (test_world 0)) = 1
   \<and> Print ''noise out of range''
       \<notin> set (console (snd (snd (analyze test_env (test_options 10 2 None None) (test_world 0)))))
   \<and> console (snd (snd (analyze test_env (test_options 10 2 None None) (test_world 0))))
       = [Print (''[bold red]'' @ cross_mark @ '' Noise must be between 0.0 and 1.0[/bold red]'')]"
  by (simp add: analyze_def validate_def apply_seed_def test_options_def test_world_def emit_def
      cross_mark_def)

text \<open>
  Claim C5, amended. The checks come before any draw, in this order: when the number of
  simulations is not positive the run stops with exit status 1 after printing
  "Simulations must be > 0" (in bold red, after a cross mark); otherwise, when the noise
  is outside [0, 1], it stops with exit status 1 after printing
  "Noise must be between 0.0 and 1.0". In both cases nothing is drawn from the random
  source, no result exists and no file is written.
\<close>

theorem validation_rejects:
  "(simulations opts \<le> 0 \<longrightarrow>
      fst (analyze E opts w) = 1
      \<and> fst (snd (analyze E opts w)) = None
      \<and> files (snd (snd (analyze E opts w))) = files w
      \<and> rng (snd (snd (analyze E opts w)))
          = (case seed opts of None \<Rightarrow> rng w | Some s \<Rightarrow> rng_seed E s)
      \<and> last (console (snd (snd (analyze E opts w))))
          = Print (''[bold red]'' @ cross_mark @ '' Simulations must be > 0[/bold red]''))
   \<and> (\<not> simulations opts \<le> 0 \<and> \<not> (0 \<le> noise opts \<and> noise opts \<le> 1) \<longrightarrow>
      fst (analyze E opts w) = 1
      \<and> fst (snd (analyze E opts w)) = None
      \<and> files (snd (snd (analyze E opts w))) = files w
      \<and> rng (snd (snd (analyze E opts w)))
          = (case seed opts of None \<Rightarrow> rng w | Some s \<Rightarrow> rng_seed E s)
      \<and> last (console (snd (snd (analyze E opts w))))
          = Print (''[bold red]'' @ cross_mark @ '' Noise must be between 0.0 and 1.0[/bold red]''))"
  by (simp add: analyze_def validate_def emit_simps files_apply_seed rng_apply_seed)

theorem validation_rejects_witness:
  "simulations (test_options 0 2 None None) \<le> 0
   \<and> \<not> simulations (test_options 10 2 None None) \<le> 0
   \<and> \<not> (0 \<le> noise (test_options 10 2 None None) \<and> noise (test_options 10 2 None None) \<le> 1)
   \<and> fst (analyze test_env (test_options 0 2 None None) (test_world 0)) = 1
   \<and> fst (analyze test_env (test_options 10 2 None None) (test_world 0)) = 1"
  using validation_rejects [of "test_options 0 2 None None" test_env "test_world 0"]
    validation_rejects [of "test_options 10 2 None None" test_env "test_world 0"]
  by (simp add: test_options_def)

text \<open>
  Claim C7, as stated, at 0 simulations with the seed 42, from a generator in state 7: the
  run stops at the first check with status 1, and the generator is left in state 42.
\<close>

theorem aborted_run_state_counterexample:
  "fst (analyze test_env (test_options 0 (3 / 10) (Some 42) None) (test_world 7)) = 1
   \<and> fst (snd (analyze test_env (test_options 0 (3 / 10) (Some 42) None) (test_world 7))) = None
   \<and> rng (test_world 7) = 7
   \<and> rng (snd (snd (analyze test_env (test_options 0 (3 / 10) (Some 42) None) (test_world 7)))) = 42"
  by (simp add: analyze_def validate_def apply_seed_def test_options_def test_world_def emit_def
      test_env_def)

text \<open>
  Claim C7, amended. A run that fails a check stops with exit status 1; no outcome is
  generated, nothing is drawn from the random source and no file is written. Without a
  seed the state is unchanged but for the error message on the console. With a seed, the
  random source has been set from it before the checks, and outside CI mode the notice of
  the deterministic mode precedes the error message.
\<close>

theorem aborted_run_state:
  "validate opts = Some msg \<Longrightarrow>
     fst (analyze E opts w) = 1
     \<and> fst (snd (analyze E opts w)) = None
     \<and> files (snd (snd (analyze E opts w))) = files w
     \<and> rng (snd (snd (analyze E opts w)))
         = (case seed opts of None \<Rightarrow> rng w | Some s \<Rightarrow> rng_seed E s)
     \<and> console (snd (snd (analyze E opts w)))
         = console w
           @ (case seed opts of
                None \<Rightarrow> []
              | Some s \<Rightarrow>
                  if ci_mode opts then []
                  else [Print (''[dim]'' @ gear @ '' Deterministic mode enabled. Seed: ''
                                @ str_int s @ ''[/dim]'')])
           @ [Print msg]
     \<and> (seed opts = None \<longrightarrow>
          snd (snd (analyze E opts w)) = w\<lparr>console := console w @ [Print msg]\<rparr>)"
  by (simp add: analyze_invalid emit_simps files_apply_seed rng_apply_seed console_apply_seed
      apply_seed_None emit_def)

theorem aborted_run_state_witness:
  "validate (test_options 0 (3 / 10) None None)
     = Some (''[bold red]'' @ cross_mark @ '' Simulations must be > 0[/bold red]'')
   \<and> seed (test_options 0 (3 / 10) None None) = None
   \<and> fst (analyze test_env (test_options 0 (3 / 10) None None) (test_world 7)) = 1
   \<and> rng (snd (snd (analyze test_env (test_options 0 (3 / 10) None None) (test_world 7)))) = 7
   \<and> snd (snd (analyze test_env (test_options 0 (3 / 10) None None) (test_world 7)))
       = (test_world 7)
           \<lparr>console := [Print (''[bold red]'' @ cross_mark
                                 @ '' Simulations must be > 0[/bold red]'')]\<rparr>"
proof -
  have h: "validate (test_options 0 (3 / 10) None None)
             = Some (''[bold red]'' @ cross_mark @ '' Simulations must be > 0[/bold red]'')"
    by (simp add: validate_def test_options_def)
  from aborted_run_state [OF h, of test_env "test_world 7"] h show ?thesis
    by (simp add: test_options_def test_world_def)
qed

subsection \<open>Runs under a seed, and the export\<close>
















end
